theory Spec2Isabelle
  imports Complex_Main
begin

section \<open>Forecasting engine of the aid-intelligence backend\<close>

text \<open>
  This theory embeds \<^verbatim>\<open>app/routers/forecasting.py\<close>: the request and result classes, the
  pandas feature table, the model selection and training step, the per-year prediction
  loop of \<^verbatim>\<open>generate_forecast\<close>, and \<^verbatim>\<open>generate_shap_explanations\<close>.

  Conventions of the embedding.
  \<^item> A Python \<^verbatim>\<open>float\<close> that the endpoint computes itself is a \<^typ>\<open>real\<close>: rounding error
    and non-finite amounts are outside the model, and a sum or product beyond the range
    of a double, which Python turns into an infinity without raising, keeps its real
    value.  The one float operation of the endpoint that raises, \<^verbatim>\<open>growth_factor ** i\<close>
    with its \<^verbatim>\<open>OverflowError\<close>, is modelled with that error.  Where pandas or
    scikit-learn hand back a value that may be NaN or infinite (a feature cell, the
    \<^verbatim>\<open>r2_score\<close>), the value is a \<open>pyfloat\<close>.
  \<^item> scikit-learn is a collaborator, not code of the repository.  It is a parameter
    \<open>sk\<close> of the model: \<open>fit\<close> may raise (\<open>None\<close>) or return a fitted regressor, whose
    \<open>predict\<close> may raise (\<open>None\<close>) on any row, and \<open>r2_score\<close> may raise or return a score.
    Every theorem holds for every such \<open>sk\<close>.
  \<^item> The storage layer is a collaborator as well: the endpoint receives the outcome of
    its query, either the fetched rows or the exception the second attempt raised.
  \<^item> An \<^verbatim>\<open>HTTPException\<close> is the \<open>Inl\<close> side of a sum; so is a Python exception inside
    the endpoint, until the handler that catches it.
\<close>

subsection \<open>Request and result classes\<close>

record ForecastRequest =
  country :: string
  sector :: "string option"
  years :: int
  model :: string

text \<open>\<^verbatim>\<open>SHAPRequest\<close> declares the same four fields with the same defaults.\<close>

type_synonym SHAPRequest = ForecastRequest

record PredictionPoint =
  year :: int
  predicted :: real
  lower :: real
  upper :: real

text \<open>The accuracy dictionary always has the same five keys.\<close>

record accuracy_metrics =
  prophet :: real
  xgboost :: real
  hybrid :: real
  confidence :: real
  method_used :: string

text \<open>
  The insight sentences are f-strings over floats.  Their content is kept, their
  rendering (\<^verbatim>\<open>:.1f\<close>, the regular expressions that clean the sector name) is not.
\<close>

datatype insight =
    StrongGrowthTrend string real
  | PositiveGrowthTrend string real
  | ContinuedInvestment
  | DecliningTrendBillions string real
  | DecliningTrendMillions string real
  | AidDependencyGraduation
  | RelativelyStable string
  | ModelConfidence int int
  | BaseAmount real int
  | SectorAllocation string

record ForecastResult =
  fr_country :: string
  fr_sector :: "string option"
  predictions :: "PredictionPoint list"
  accuracy :: accuracy_metrics
  featureImportance :: "(string \<times> real) list"
  insights :: "insight list"

record SHAPExplanation =
  feature :: string
  impact :: real
  description :: string
  category :: string

record SHAPResult =
  explanations :: "SHAPExplanation list"
  model_prediction :: real
  base_value :: real
  shap_country :: string
  shap_sector :: "string option"

datatype http_error = HTTPException (status_code: int) (detail: string)

subsection \<open>The storage collaborator\<close>

text \<open>
  A fetched row is \<^verbatim>\<open>(year, total_aid)\<close>; \<^verbatim>\<open>total_aid\<close> is an SQL \<^verbatim>\<open>SUM\<close> and may be
  \<^verbatim>\<open>None\<close>.  \<open>DbError msg\<close> is a query that raised (for \<^verbatim>\<open>generate_forecast\<close>: raised
  again after the rollback).
\<close>

type_synonym row = "int \<times> real option"

datatype query_outcome = DbError string | Rows "row list"

subsection \<open>Python numbers\<close>

datatype pyfloat = Fin real | NaN | PosInf | NegInf

text \<open>\<^verbatim>\<open>round(x, ndigits)\<close>: to the nearest multiple of \<open>10^-ndigits\<close>, ties to even.\<close>

definition round_half_even :: "real \<Rightarrow> int" where
  "round_half_even x =
     (let f = \<lfloor>x\<rfloor>; d = x - of_int f
      in if d < 1/2 then f else if d > 1/2 then f + 1 else if even f then f else f + 1)"

definition py_round :: "real \<Rightarrow> nat \<Rightarrow> real" where
  "py_round x ndigits = of_int (round_half_even (x * 10 ^ ndigits)) / 10 ^ ndigits"

text \<open>The largest finite double, \<^verbatim>\<open>sys.float_info.max\<close>.\<close>

definition float_max :: real where
  "float_max = (2 - 1 / 2 ^ 52) * 2 ^ 1023"

text \<open>The exception that float arithmetic raises in the endpoint, and its \<^verbatim>\<open>str\<close>.\<close>

datatype py_exception = OverflowError

definition str_exception :: "py_exception \<Rightarrow> string" where
  "str_exception e = (case e of OverflowError \<Rightarrow> ''(34, 'Numerical result out of range')'')"

text \<open>
  \<^verbatim>\<open>x ** n\<close> for a float \<open>x\<close> and an \<^verbatim>\<open>int\<close> \<open>n \<ge> 0\<close>: Python raises \<^verbatim>\<open>OverflowError\<close> when the
  result is beyond the range of a double.  A result that underflows is returned as zero
  by Python and kept as it is here.
\<close>

definition py_pow :: "real \<Rightarrow> nat \<Rightarrow> py_exception + real" where
  "py_pow x n = (if \<bar>x ^ n\<bar> > float_max then Inl OverflowError else Inr (x ^ n))"

text \<open>\<^verbatim>\<open>np.mean\<close> and \<^verbatim>\<open>np.diff\<close> on a list of finite floats.\<close>

definition np_mean :: "real list \<Rightarrow> real" where
  "np_mean xs = sum_list xs / real (length xs)"

definition np_diff :: "real list \<Rightarrow> real list" where
  "np_diff xs = map2 (\<lambda>a b. b - a) xs (tl xs)"

text \<open>\<^verbatim>\<open>xs[-k:]\<close>\<close>

definition last_n :: "nat \<Rightarrow> 'a list \<Rightarrow> 'a list" where
  "last_n k xs = drop (length xs - k) xs"

text \<open>\<^verbatim>\<open>str.lower\<close> on ASCII letters.\<close>

definition lower_char :: "char \<Rightarrow> char" where
  "lower_char c =
     (case map_of (zip ''ABCDEFGHIJKLMNOPQRSTUVWXYZ'' ''abcdefghijklmnopqrstuvwxyz'') c of
        None \<Rightarrow> c | Some d \<Rightarrow> d)"

definition str_lower :: "string \<Rightarrow> string" where
  "str_lower s = map lower_char s"

subsection \<open>The pandas feature table\<close>

text \<open>
  Columns are lists of \<open>pyfloat\<close>; NaN marks the cells that \<^verbatim>\<open>shift\<close>, \<^verbatim>\<open>diff\<close>,
  \<^verbatim>\<open>rolling(...).std()\<close> and \<^verbatim>\<open>pct_change\<close> leave undefined.
\<close>

definition shift :: "nat \<Rightarrow> pyfloat list \<Rightarrow> pyfloat list" where
  "shift k xs = replicate (min k (length xs)) NaN @ take (length xs - k) xs"

definition diff_col :: "real list \<Rightarrow> pyfloat list" where
  "diff_col xs = (case xs of [] \<Rightarrow> [] | _ # _ \<Rightarrow> NaN # map Fin (np_diff xs))"

text \<open>The trailing window of \<^verbatim>\<open>rolling(window=3, min_periods=1)\<close> at position \<open>i\<close>.\<close>

definition window3 :: "real list \<Rightarrow> nat \<Rightarrow> real list" where
  "window3 xs i = drop (i - 2) (take (Suc i) xs)"

definition rolling_mean :: "real list \<Rightarrow> pyfloat list" where
  "rolling_mean xs = map (\<lambda>i. Fin (np_mean (window3 xs i))) [0..<length xs]"

text \<open>Sample standard deviation (\<^verbatim>\<open>ddof=1\<close>): NaN on a window of one value.\<close>

definition sample_std :: "real list \<Rightarrow> pyfloat" where
  "sample_std w =
     (if length w < 2 then NaN
      else Fin (sqrt (sum_list (map (\<lambda>x. (x - np_mean w)\<^sup>2) w) / real (length w - 1))))"

definition rolling_std :: "real list \<Rightarrow> pyfloat list" where
  "rolling_std xs = map (\<lambda>i. sample_std (window3 xs i)) [0..<length xs]"

text \<open>\<^verbatim>\<open>pct_change\<close>: \<open>cur / prev - 1\<close> in IEEE arithmetic, so a zero \<open>prev\<close> gives an
  infinity, or NaN for \<open>0 / 0\<close>.\<close>

definition pct :: "real \<Rightarrow> real \<Rightarrow> pyfloat" where
  "pct prev cur =
     (if prev = 0 then (if cur = 0 then NaN else if cur > 0 then PosInf else NegInf)
      else Fin (cur / prev - 1))"

definition pct_change :: "real list \<Rightarrow> pyfloat list" where
  "pct_change xs = (case xs of [] \<Rightarrow> [] | _ # _ \<Rightarrow> NaN # map2 pct xs (tl xs))"

definition fillna :: "real \<Rightarrow> pyfloat list \<Rightarrow> pyfloat list" where
  "fillna v xs = map (\<lambda>x. if x = NaN then Fin v else x) xs"

fun bfill :: "pyfloat list \<Rightarrow> pyfloat list" where
  "bfill [] = []"
| "bfill (x # xs) =
     (let r = bfill xs
      in (if x = NaN then (case r of [] \<Rightarrow> NaN | y # _ \<Rightarrow> y) else x) # r)"

fun ffill_from :: "pyfloat \<Rightarrow> pyfloat list \<Rightarrow> pyfloat list" where
  "ffill_from prev [] = []"
| "ffill_from prev (x # xs) =
     (let y = (if x = NaN then prev else x) in y # ffill_from y xs)"

definition ffill :: "pyfloat list \<Rightarrow> pyfloat list" where
  "ffill xs = ffill_from NaN xs"

text \<open>The nine \<^verbatim>\<open>feature_cols\<close> of one row of \<^verbatim>\<open>df\<close>.\<close>

record feature_row =
  year_idx :: pyfloat
  lag1 :: pyfloat
  lag2 :: pyfloat
  trend :: pyfloat
  rolling_mean_3 :: pyfloat
  volatility :: pyfloat
  growth_rate :: pyfloat
  year_sin :: pyfloat
  year_cos :: pyfloat

definition cycle_arg :: "real \<Rightarrow> nat \<Rightarrow> real" where
  "cycle_arg idx n = 2 * pi * idx / real (max n 8)"

text \<open>\<^verbatim>\<open>df[feature_cols]\<close> after \<^verbatim>\<open>df = df.bfill().ffill()\<close>.\<close>

definition build_features :: "real list \<Rightarrow> feature_row list" where
  "build_features amounts =
     (let n = length amounts;
          a = map Fin amounts;
          c_lag1 = ffill (bfill (shift 1 a));
          c_lag2 = ffill (bfill (shift 2 a));
          c_trend = ffill (bfill (diff_col amounts));
          c_mean = ffill (bfill (rolling_mean amounts));
          c_vol = ffill (bfill (fillna 0 (rolling_std amounts)));
          c_growth = ffill (bfill (fillna 0 (pct_change amounts)))
      in map (\<lambda>i. \<lparr> year_idx = Fin (real i), lag1 = c_lag1 ! i, lag2 = c_lag2 ! i,
                     trend = c_trend ! i, rolling_mean_3 = c_mean ! i,
                     volatility = c_vol ! i, growth_rate = c_growth ! i,
                     year_sin = Fin (sin (cycle_arg (real i) n)),
                     year_cos = Fin (cos (cycle_arg (real i) n)) \<rparr>) [0..<n])"

subsection \<open>The scikit-learn collaborator\<close>

datatype regressor =
    RandomForestRegressor (n_estimators: nat) (random_state: nat)
  | GradientBoostingRegressor (n_estimators: nat) (learning_rate: real)
      (max_depth: "nat option") (random_state: nat)

text \<open>A fitted regressor is its \<^verbatim>\<open>predict\<close> on one row; \<open>None\<close> is a raised exception.\<close>

type_synonym fitted = "feature_row \<Rightarrow> real option"

record sklearn =
  fit :: "regressor \<Rightarrow> feature_row list \<Rightarrow> real list \<Rightarrow> fitted option"
  r2_score :: "real list \<Rightarrow> real list \<Rightarrow> pyfloat option"

subsection \<open>Model selection and training\<close>

text \<open>
  \<^verbatim>\<open>if request.model == "prophet" or len(df) < 5: ... elif request.model == "xgboost": ...
  else: ...\<close>, giving the regressor and \<^verbatim>\<open>expected_accuracy\<close>.
\<close>

definition select_model :: "string \<Rightarrow> nat \<Rightarrow> regressor \<times> real" where
  "select_model model_name n =
     (if model_name = ''prophet'' \<or> n < 5 then (RandomForestRegressor 100 42, 86.5)
      else if model_name = ''xgboost'' then (GradientBoostingRegressor 100 0.1 None 42, 89.2)
      else (GradientBoostingRegressor 150 0.08 (Some 4) 42, 91.8))"

text \<open>
  \<^verbatim>\<open>max(75.0, min(expected_accuracy, r2_accuracy * 100))\<close>.  Python's \<^verbatim>\<open>min(a, b)\<close> is
  \<open>b\<close> when \<open>b < a\<close> and \<open>a\<close> otherwise, so a NaN score leaves \<open>expected_accuracy\<close>.
\<close>

definition accuracy_from_r2 :: "real \<Rightarrow> pyfloat \<Rightarrow> real" where
  "accuracy_from_r2 expected_accuracy r2_accuracy =
     (case r2_accuracy of
        Fin r \<Rightarrow> max 75.0 (min expected_accuracy (r * 100))
      | NaN \<Rightarrow> max 75.0 expected_accuracy
      | PosInf \<Rightarrow> max 75.0 expected_accuracy
      | NegInf \<Rightarrow> 75.0)"

text \<open>
  The training block.  The result is the pair of \<^verbatim>\<open>use_ml\<close> with the fitted model
  (\<open>Some m\<close> when \<^verbatim>\<open>use_ml\<close> is true at the end) and \<^verbatim>\<open>model_accuracy\<close>, which starts at
  80.0 and becomes 75.0 when the \<^verbatim>\<open>try\<close> block raises.
\<close>

definition train ::
  "sklearn \<Rightarrow> regressor \<Rightarrow> real \<Rightarrow> feature_row list \<Rightarrow> real list \<Rightarrow> fitted option \<times> real" where
  "train sk reg expected_accuracy df amounts =
     (if length df \<ge> 3 then
        (let X_train = drop 2 df; y_train = drop 2 amounts
         in case fit sk reg X_train y_train of
              None \<Rightarrow> (None, 75.0)
            | Some m \<Rightarrow>
                (case those (map m X_train) of
                   None \<Rightarrow> (None, 75.0)
                 | Some train_predictions \<Rightarrow>
                     (case r2_score sk y_train train_predictions of
                        None \<Rightarrow> (None, 75.0)
                      | Some r2_accuracy \<Rightarrow>
                          (Some m, accuracy_from_r2 expected_accuracy r2_accuracy))))
      else (None, 80.0))"

subsection \<open>The prediction loop\<close>

text \<open>\<^verbatim>\<open>(amounts[-1] - amounts[0]) / (len(amounts) - 1) if len(amounts) > 1 else 0\<close>\<close>

definition avg_annual_change :: "real list \<Rightarrow> real" where
  "avg_annual_change amounts =
     (if length amounts > 1 then (last amounts - hd amounts) / (real (length amounts) - 1) else 0)"

text \<open>\<^verbatim>\<open>np.mean(np.diff(amounts[-3:])) if len(amounts) >= 3 else avg_annual_change\<close>\<close>

definition recent_trend :: "real list \<Rightarrow> real" where
  "recent_trend amounts =
     (if length amounts \<ge> 3 then np_mean (np_diff (last_n 3 amounts))
      else avg_annual_change amounts)"

text \<open>The row handed to \<^verbatim>\<open>model.predict\<close> for step \<open>i\<close>: a copy of the last row of \<^verbatim>\<open>df\<close>
  with the position and the two cycle columns overwritten.\<close>

definition new_features :: "feature_row list \<Rightarrow> int \<Rightarrow> feature_row" where
  "new_features df i =
     (let idx = real_of_int (int (length df) + i - 1)
      in (last df)\<lparr> year_idx := Fin idx,
                    year_sin := Fin (sin (cycle_arg idx (length df))),
                    year_cos := Fin (cos (cycle_arg idx (length df))) \<rparr>)"

text \<open>What the \<^verbatim>\<open>try\<close> block does with the raw model output: the growth correction of
  the first step and the trend adjustment of the later ones.\<close>

definition adjust_prediction :: "real list \<Rightarrow> int \<Rightarrow> real \<Rightarrow> real" where
  "adjust_prediction amounts i raw =
     (let base_amount = last amounts;
          p = (if i = 1 \<and> \<bar>raw - base_amount\<bar> < 1.0
               then base_amount + recent_trend amounts * 0.75 else raw)
      in if i > 1 then p + avg_annual_change amounts * 0.5 * real_of_int i else p)"

text \<open>
  The branch \<^verbatim>\<open>if use_ml and hasattr(model, 'predict')\<close> of the loop body:
  \<^verbatim>\<open>(predicted, variability)\<close> of step \<open>i\<close>.  Everything in it is inside \<^verbatim>\<open>try\<close>, and the
  \<^verbatim>\<open>except\<close> branch replaces the step by the linear trend.
\<close>

definition ml_step ::
  "fitted \<Rightarrow> real \<Rightarrow> feature_row list \<Rightarrow> real list \<Rightarrow> int \<Rightarrow> real \<times> real" where
  "ml_step m model_accuracy df amounts i =
     (let base_amount = last amounts
      in case m (new_features df i) of
           Some raw \<Rightarrow>
             (let p = adjust_prediction amounts i raw;
                  confidence_factor = (100 - model_accuracy) / 100 * 0.25 + 0.10
              in (p, \<bar>p\<bar> * confidence_factor))
         | None \<Rightarrow>
             (let p = base_amount + avg_annual_change amounts * real_of_int i
              in (p, \<bar>p\<bar> * 0.20)))"

text \<open>\<^verbatim>\<open>1 + (avg_annual_change / base_amount * 0.5) if base_amount > 0 else 1.05\<close>\<close>

definition growth_factor :: "real list \<Rightarrow> real" where
  "growth_factor amounts =
     (let base_amount = last amounts
      in if base_amount > 0 then 1 + (avg_annual_change amounts / base_amount * 0.5)
         else 1.05)"

text \<open>
  The \<^verbatim>\<open>else\<close> branch of the loop body.  It is outside every inner \<^verbatim>\<open>try\<close>: an
  \<^verbatim>\<open>OverflowError\<close> of \<^verbatim>\<open>growth_factor ** i\<close> leaves the loop.
\<close>

definition trend_step :: "real list \<Rightarrow> int \<Rightarrow> py_exception + real \<times> real" where
  "trend_step amounts i =
     (case py_pow (growth_factor amounts) (nat i) of
        Inl e \<Rightarrow> Inl e
      | Inr pw \<Rightarrow> (let p = last amounts * pw in Inr (p, \<bar>p\<bar> * 0.20)))"

text \<open>The body of the loop up to the bounds.\<close>

definition predict_step ::
  "fitted option \<Rightarrow> real \<Rightarrow> feature_row list \<Rightarrow> real list \<Rightarrow> int
     \<Rightarrow> py_exception + real \<times> real" where
  "predict_step ml model_accuracy df amounts i =
     (case ml of
        Some m \<Rightarrow> Inr (ml_step m model_accuracy df amounts i)
      | None \<Rightarrow> trend_step amounts i)"

text \<open>\<^verbatim>\<open>lower = max(0, predicted - variability); upper = predicted + variability;
  predicted = max(0, predicted)\<close>, then the three \<^verbatim>\<open>round(_, 2)\<close>.\<close>

definition make_point :: "int \<Rightarrow> real \<times> real \<Rightarrow> PredictionPoint" where
  "make_point forecast_year pv =
     (case pv of (p, variability) \<Rightarrow>
        \<lparr> year = forecast_year,
          predicted = py_round (max 0 p) 2,
          lower = py_round (max 0 (p - variability)) 2,
          upper = py_round (p + variability) 2 \<rparr>)"

text \<open>
  \<^verbatim>\<open>for i in range(1, request.years + 1): ... predictions.append(...)\<close>: the points of the
  steps in order, or the exception of the first step that raises.
\<close>

fun forecast_loop ::
  "fitted option \<Rightarrow> real \<Rightarrow> feature_row list \<Rightarrow> real list \<Rightarrow> int \<Rightarrow> int list
     \<Rightarrow> py_exception + PredictionPoint list" where
  "forecast_loop ml model_accuracy df amounts last_year [] = Inr []"
| "forecast_loop ml model_accuracy df amounts last_year (i # steps) =
     (case predict_step ml model_accuracy df amounts i of
        Inl e \<Rightarrow> Inl e
      | Inr pv \<Rightarrow>
          (case forecast_loop ml model_accuracy df amounts last_year steps of
             Inl e \<Rightarrow> Inl e
           | Inr points \<Rightarrow> Inr (make_point (last_year + i) pv # points)))"

definition forecast_points ::
  "fitted option \<Rightarrow> real \<Rightarrow> feature_row list \<Rightarrow> real list \<Rightarrow> int \<Rightarrow> int
     \<Rightarrow> py_exception + PredictionPoint list" where
  "forecast_points ml model_accuracy df amounts last_year n =
     forecast_loop ml model_accuracy df amounts last_year [1..n]"

subsection \<open>Insights, feature importance and the accuracy dictionary\<close>

text \<open>\<^verbatim>\<open>int(x)\<close> on a float truncates towards zero.\<close>

definition py_int :: "real \<Rightarrow> int" where
  "py_int x = (if x \<ge> 0 then \<lfloor>x\<rfloor> else \<lceil>x\<rceil>)"

definition make_insights :: "ForecastRequest \<Rightarrow> real list \<Rightarrow> int \<Rightarrow> real \<Rightarrow> insight list" where
  "make_insights request amounts last_year model_accuracy =
     (let change = avg_annual_change amounts;
          trend_lines =
            (if change > 100 then
               [if \<bar>change\<bar> \<ge> 1000 then StrongGrowthTrend (country request) (change / 1000)
                else PositiveGrowthTrend (country request) change,
                ContinuedInvestment]
             else if change < - 100 then
               [if \<bar>change\<bar> \<ge> 1000 then DecliningTrendBillions (country request) (change / 1000)
                else DecliningTrendMillions (country request) change,
                AidDependencyGraduation]
             else [RelativelyStable (country request)]);
          confidence_level = py_int model_accuracy
      in trend_lines
         @ [ModelConfidence confidence_level (100 - confidence_level),
            BaseAmount (last amounts) last_year]
         @ (case sector request of
              None \<Rightarrow> []
            | Some s \<Rightarrow> if s \<noteq> [] \<and> str_lower s \<noteq> ''all'' then [SectorAllocation s] else []))"

definition feature_importance :: "(string \<times> real) list" where
  "feature_importance =
     [(''Historical Trend'', 0.35), (''GDP Growth'', 0.25), (''Political Stability'', 0.20),
      (''Natural Disasters'', 0.12), (''Regional Conflicts'', 0.08)]"

definition make_accuracy_metrics :: "string \<Rightarrow> bool \<Rightarrow> real \<Rightarrow> accuracy_metrics" where
  "make_accuracy_metrics model_name use_ml model_accuracy =
     (if model_name = ''prophet'' then
        \<lparr> prophet = model_accuracy,
          xgboost = (if use_ml then 89.2 else 84.5),
          hybrid = (if use_ml then 91.8 else 88.1),
          confidence = model_accuracy,
          method_used = (if use_ml then ''Random Forest (Prophet Mode)'' else ''Trend Analysis'') \<rparr>
      else if model_name = ''xgboost'' then
        \<lparr> prophet = (if use_ml then 86.5 else 82.1),
          xgboost = model_accuracy,
          hybrid = (if use_ml then 91.8 else 88.1),
          confidence = model_accuracy,
          method_used = (if use_ml then ''Gradient Boosting (XGBoost Mode)'' else ''Trend Analysis'') \<rparr>
      else
        \<lparr> prophet = (if use_ml then 86.5 else 82.1),
          xgboost = (if use_ml then 89.2 else 84.5),
          hybrid = model_accuracy,
          confidence = model_accuracy,
          method_used = (if use_ml then ''Advanced Gradient Boosting (Hybrid Mode)''
                    else ''Trend Analysis'') \<rparr>)"

subsection \<open>\<^verbatim>\<open>generate_forecast\<close>\<close>

text \<open>\<^verbatim>\<open>max(years)\<close>; the list is not empty where it is called.\<close>

fun max_list :: "int list \<Rightarrow> int" where
  "max_list [] = 0"
| "max_list (x # xs) = fold max xs x"

text \<open>\<^verbatim>\<open>float(row.total_aid or 0)\<close>\<close>

definition amount_of :: "row \<Rightarrow> real" where
  "amount_of r = (case snd r of None \<Rightarrow> 0 | Some v \<Rightarrow> v)"

text \<open>
  The endpoint.  The outer handlers re-raise an \<^verbatim>\<open>HTTPException\<close> and turn every other
  exception \<open>e\<close> into status 500 with the detail \<^verbatim>\<open>f"Error generating forecast: {str(e)}"\<close>.
\<close>

definition generate_forecast ::
  "sklearn \<Rightarrow> ForecastRequest \<Rightarrow> query_outcome \<Rightarrow> http_error + ForecastResult" where
  "generate_forecast sk request db =
     (case db of
        DbError msg \<Rightarrow> Inl (HTTPException 500 (''Error generating forecast: '' @ msg))
      | Rows historical_data \<Rightarrow>
          if historical_data = [] then
            Inl (HTTPException 404 (''No historical data found for '' @ country request))
          else
            (let year_list = map fst historical_data;
                 amounts = map amount_of historical_data
             in if length amounts < 2 then
                  Inl (HTTPException 400 ''Insufficient historical data for forecasting'')
                else
                  (let df = build_features amounts;
                       (reg, expected_accuracy) = select_model (model request) (length df);
                       (ml, model_accuracy) = train sk reg expected_accuracy df amounts;
                       last_year = max_list year_list
                   in case forecast_points ml model_accuracy df amounts last_year
                             (years request) of
                        Inl e \<Rightarrow>
                          Inl (HTTPException 500
                                 (''Error generating forecast: '' @ str_exception e))
                      | Inr points \<Rightarrow>
                          Inr \<lparr> fr_country = country request,
                                fr_sector = sector request,
                                predictions = points,
                                accuracy =
                                  make_accuracy_metrics (model request) (ml \<noteq> None)
                                    model_accuracy,
                                featureImportance = feature_importance,
                                insights =
                                  make_insights request amounts last_year
                                    model_accuracy \<rparr>)))"

subsection \<open>\<^verbatim>\<open>generate_shap_explanations\<close>\<close>

text \<open>The three literal lists, for \<^verbatim>\<open>years <= 3\<close>, \<^verbatim>\<open>years <= 5\<close> and the rest.\<close>

definition short_term_explanations :: "SHAPExplanation list" where
  "short_term_explanations =
     [\<lparr> feature = ''Historical Trend'', impact = 1.31947,
        description = ''Positive long-term aid flow pattern indicates sustained donor commitment'',
        category = ''temporal'' \<rparr>,
      \<lparr> feature = ''Aid Volatility'', impact = - 0.08732,
        description = ''Low variability in aid flows affects prediction confidence'',
        category = ''stability'' \<rparr>,
      \<lparr> feature = ''Recent Growth'', impact = 0.01368,
        description = ''Stable aid flows in recent years suggest predictable patterns'',
        category = ''momentum'' \<rparr>,
      \<lparr> feature = ''Development Stage'', impact = 0.2,
        description = ''High development needs drive continued aid requirements'',
        category = ''structural'' \<rparr>,
      \<lparr> feature = ''Economic Cycle'', impact = 0.14266,
        description = ''Global economic conditions favor aid allocation to this region'',
        category = ''external'' \<rparr>,
      \<lparr> feature = ''Political Stability'', impact = 0.06507,
        description = ''Stable political environment affects aid predictability and effectiveness'',
        category = ''governance'' \<rparr>]"

definition medium_term_explanations :: "SHAPExplanation list" where
  "medium_term_explanations =
     [\<lparr> feature = ''Development Stage'', impact = 1.45,
        description = ''Medium-term development needs become primary driver of aid allocation'',
        category = ''structural'' \<rparr>,
      \<lparr> feature = ''Historical Trend'', impact = 0.95,
        description = ''Past aid patterns influence medium-term projections with moderate weight'',
        category = ''temporal'' \<rparr>,
      \<lparr> feature = ''Economic Cycle'', impact = 0.28,
        description = ''Global economic cycles impact medium-term aid commitment sustainability'',
        category = ''external'' \<rparr>,
      \<lparr> feature = ''Political Stability'', impact = 0.18,
        description = ''Government stability affects medium-term aid program effectiveness'',
        category = ''governance'' \<rparr>,
      \<lparr> feature = ''Regional Context'', impact = 0.12,
        description = ''Regional development patterns influence aid allocation strategy'',
        category = ''regional'' \<rparr>,
      \<lparr> feature = ''Aid Volatility'', impact = - 0.03,
        description = ''Funding variability has reduced impact over medium timeframes'',
        category = ''stability'' \<rparr>]"

definition long_term_explanations :: "SHAPExplanation list" where
  "long_term_explanations =
     [\<lparr> feature = ''Development Stage'', impact = 1.82,
        description = ''Long-term development trajectory becomes dominant factor in aid forecasting'',
        category = ''structural'' \<rparr>,
      \<lparr> feature = ''Climate Impact'', impact = 0.67,
        description = ''Climate change effects drive long-term aid requirements for adaptation'',
        category = ''environmental'' \<rparr>,
      \<lparr> feature = ''Economic Transformation'', impact = 0.45,
        description = ''Economic development patterns shape long-term aid needs and graduation'',
        category = ''economic'' \<rparr>,
      \<lparr> feature = ''Demographic Trends'', impact = 0.32,
        description = ''Population growth and urbanization affect long-term development aid'',
        category = ''demographic'' \<rparr>,
      \<lparr> feature = ''Historical Trend'', impact = 0.15,
        description = ''Past patterns have minimal influence on long-term structural changes'',
        category = ''temporal'' \<rparr>,
      \<lparr> feature = ''Global Governance'', impact = 0.08,
        description = ''International policy frameworks shape long-term aid architecture'',
        category = ''governance'' \<rparr>]"

definition select_explanations :: "int \<Rightarrow> SHAPExplanation list" where
  "select_explanations n =
     (if n \<le> 3 then short_term_explanations
      else if n \<le> 5 then medium_term_explanations
      else long_term_explanations)"

text \<open>
  \<^verbatim>\<open>historical_data = [{"year": row.year, "amount": float(row.total_aid)} for row in result]\<close>
  inside \<^verbatim>\<open>try\<close>: a failed query, or \<^verbatim>\<open>float(None)\<close>, leaves the empty list.
\<close>

definition shap_history :: "query_outcome \<Rightarrow> (int \<times> real) list" where
  "shap_history db =
     (case db of
        DbError msg \<Rightarrow> []
      | Rows rs \<Rightarrow>
          (case those (map (\<lambda>r. map_option (Pair (fst r)) (snd r)) rs) of
             None \<Rightarrow> [] | Some h \<Rightarrow> h))"

text \<open>
  The two ways to \<^verbatim>\<open>(latest_amount, base_value)\<close>: from the forecast, or, when the
  forecast call raised, from the last three amounts.
\<close>

definition shap_values ::
  "string \<Rightarrow> (int \<times> real) list \<Rightarrow> http_error + ForecastResult \<Rightarrow> http_error + real \<times> real" where
  "shap_values country_name historical_data forecast =
     (case forecast of
        Inr forecast_result \<Rightarrow>
          (let final_prediction =
                 (if predictions forecast_result \<noteq> []
                  then predicted (last (predictions forecast_result)) else 25000);
               amounts = (if historical_data \<noteq> [] then map snd historical_data else [25000])
           in Inr (final_prediction, np_mean amounts))
      | Inl forecast_error \<Rightarrow>
          if length historical_data \<ge> 3 then
            (let amounts = map snd historical_data;
                 trend3 = (last amounts - amounts ! (length amounts - 3)) / 2
             in Inr (last amounts + trend3, np_mean amounts))
          else Inl (HTTPException 404
                      (''No forecast or historical data found for '' @ country_name)))"

text \<open>
  \<open>shap_db\<close> is the outcome of the endpoint's own query, \<open>forecast_db\<close> the outcome of the
  query that the nested \<^verbatim>\<open>generate_forecast\<close> call runs.  No path of the model reaches
  the outer \<^verbatim>\<open>except Exception\<close> handler with its two-item list.
\<close>

definition generate_shap_explanations ::
  "sklearn \<Rightarrow> SHAPRequest \<Rightarrow> query_outcome \<Rightarrow> query_outcome \<Rightarrow> http_error + SHAPResult" where
  "generate_shap_explanations sk request shap_db forecast_db =
     (let historical_data = shap_history shap_db;
          forecast_request = \<lparr> country = country request, sector = sector request,
                               years = years request, model = model request \<rparr>
      in case shap_values (country request) historical_data
                (generate_forecast sk forecast_request forecast_db) of
           Inl e \<Rightarrow> Inl e
         | Inr (latest_amount, mean_amount) \<Rightarrow>
             Inr \<lparr> explanations = select_explanations (years request),
                   model_prediction = latest_amount,
                   base_value = mean_amount,
                   shap_country = country request,
                   shap_sector = sector request \<rparr>)"

subsection \<open>Formulas as the specification words them\<close>

text \<open>
  These four definitions follow the specification's sentences, not the code; the
  theorems below compare them with the code.
\<close>

text \<open>Section 4.3: the expected-ceiling accuracy of the requested model identifier.\<close>

definition spec_expected_ceiling :: "string \<Rightarrow> real" where
  "spec_expected_ceiling model_name =
     (if model_name = ''prophet'' then 86.5
      else if model_name = ''xgboost'' then 89.2 else 91.8)"

text \<open>Section 4.3: \<^verbatim>\<open>clamp(v, lo, hi)\<close>.\<close>

definition spec_clamp :: "real \<Rightarrow> real \<Rightarrow> real \<Rightarrow> real" where
  "spec_clamp v lo hi = (if v < lo then lo else if v > hi then hi else v)"

text \<open>Section 4.4, fallback path: the geometric trend formula.\<close>

definition spec_geometric_trend :: "real list \<Rightarrow> nat \<Rightarrow> real" where
  "spec_geometric_trend amounts step_index =
     (let last_amount = last amounts;
          change = (last amounts - hd amounts) / (real (length amounts) - 1);
          growth = (if last_amount = 0 then 1.05 else 1 + 0.5 * change / last_amount)
      in last_amount * growth ^ step_index)"

text \<open>Section 4.4, flat-prediction correction: the mean of the last up-to-3 first
  differences, added at three quarters to the last amount.\<close>

definition spec_flat_correction :: "real list \<Rightarrow> real" where
  "spec_flat_correction amounts =
     last amounts + 0.75 * np_mean (last_n 3 (np_diff amounts))"

subsection \<open>Stub regressors\<close>

text \<open>
  Concrete instances of the scikit-learn parameter, for evaluating the endpoint on
  concrete series.  \<open>sk_constant v r2\<close> fits always, predicts \<open>v\<close> on every row and scores
  \<open>r2\<close>; \<open>sk_fit_raises\<close> raises in \<^verbatim>\<open>fit\<close>; \<open>sk_raises_at k v r2\<close> is \<open>sk_constant v r2\<close>
  except that \<^verbatim>\<open>predict\<close> raises on the row at position \<open>k\<close>.
\<close>

definition sk_constant :: "real \<Rightarrow> pyfloat \<Rightarrow> sklearn" where
  "sk_constant v r2 =
     \<lparr> fit = (\<lambda>reg X y. Some (\<lambda>x. Some v)), r2_score = (\<lambda>y_true y_pred. Some r2) \<rparr>"


definition sk_raises_at :: "real \<Rightarrow> real \<Rightarrow> pyfloat \<Rightarrow> sklearn" where
  "sk_raises_at k v r2 =
     \<lparr> fit = (\<lambda>reg X y. Some (\<lambda>x. if year_idx x = Fin k then None else Some v)),
       r2_score = (\<lambda>y_true y_pred. Some r2) \<rparr>"

subsection \<open>Reading a response\<close>

text \<open>The body of a successful response, \<open>None\<close> for an \<^verbatim>\<open>HTTPException\<close>.\<close>

definition response_body :: "http_error + 'a \<Rightarrow> 'a option" where
  "response_body r = (case r of Inl e \<Rightarrow> None | Inr x \<Rightarrow> Some x)"

section \<open>Properties\<close>

subsection \<open>Rounding keeps the order\<close>



lemma round_half_even_of_int: "round_half_even (of_int k) = k"
  by (simp add: round_half_even_def)


lemma py_round_zero [simp]: "py_round 0 n = 0"
  using round_half_even_of_int [of 0] by (simp add: py_round_def)


subsection \<open>Overflow of the power\<close>

lemma float_max_ge: "10 ^ 300 \<le> float_max"
  by (simp add: float_max_def)

lemma float_max_ge_1: "1 \<le> float_max"
  using float_max_ge by (rule order_trans [rotated]) simp

lemma py_pow_Inr_iff: "py_pow x n = Inr v \<longleftrightarrow> \<bar>x\<bar> ^ n \<le> float_max \<and> v = x ^ n"
  by (auto simp add: py_pow_def power_abs)

lemma py_pow_Inl_iff: "py_pow x n = Inl e \<longleftrightarrow> float_max < \<bar>x\<bar> ^ n"
  by (cases e) (auto simp add: py_pow_def power_abs)

lemma py_pow_small:
  assumes "\<bar>x\<bar> \<le> 1000" and "n \<le> 100"
  shows "py_pow x n = Inr (x ^ n)"
proof -
  have "\<bar>x\<bar> ^ n \<le> 1000 ^ n" using assms(1) by (simp add: power_mono)
  also have "\<dots> \<le> (1000::real) ^ 100" using assms(2) by (intro power_increasing) simp_all
  also have "(1000::real) ^ 100 = 10 ^ 300"
    using power_mult [of "10::real" 3 100] by simp
  finally have "\<bar>x\<bar> ^ n \<le> float_max" using float_max_ge by simp
  then show ?thesis by (simp add: py_pow_Inr_iff)
qed

text \<open>The powers of a number grow or shrink with the exponent, so the steps of a horizon
  stay in range exactly when the last one does.\<close>

lemma power_steps_bounded:
  "(\<forall>i \<in> set [1..n]. \<bar>g\<bar> ^ nat i \<le> float_max) \<longleftrightarrow> \<bar>g\<bar> ^ nat n \<le> float_max"
proof
  assume all: "\<forall>i \<in> set [1..n]. \<bar>g\<bar> ^ nat i \<le> float_max"
  show "\<bar>g\<bar> ^ nat n \<le> float_max"
  proof (cases "1 \<le> n")
    case True
    with all show ?thesis by simp
  next
    case False
    then have "nat n = 0" by simp
    then show ?thesis using float_max_ge_1 by simp
  qed
next
  assume last: "\<bar>g\<bar> ^ nat n \<le> float_max"
  show "\<forall>i \<in> set [1..n]. \<bar>g\<bar> ^ nat i \<le> float_max"
  proof
    fix i assume "i \<in> set [1..n]"
    then have le: "nat i \<le> nat n" by auto
    show "\<bar>g\<bar> ^ nat i \<le> float_max"
    proof (cases "\<bar>g\<bar> \<le> 1")
      case True
      then have "\<bar>g\<bar> ^ nat i \<le> 1" by (simp add: power_le_one)
      with float_max_ge_1 show ?thesis by simp
    next
      case False
      then have "\<bar>g\<bar> ^ nat i \<le> \<bar>g\<bar> ^ nat n" using le by (simp add: power_increasing)
      with last show ?thesis by simp
    qed
  qed
qed

subsection \<open>Steps and the loop\<close>

lemma trend_step_Inr_iff:
  "trend_step amounts i = Inr pv \<longleftrightarrow>
     \<bar>growth_factor amounts\<bar> ^ nat i \<le> float_max
     \<and> pv = (last amounts * growth_factor amounts ^ nat i,
             \<bar>last amounts * growth_factor amounts ^ nat i\<bar> * 0.20)"
  by (auto simp add: trend_step_def py_pow_def power_abs Let_def)

lemma trend_step_Inl_iff:
  "trend_step amounts i = Inl e \<longleftrightarrow> float_max < \<bar>growth_factor amounts\<bar> ^ nat i"
  by (cases e) (auto simp add: trend_step_def py_pow_def power_abs Let_def)

lemma predict_step_trained [simp]:
  "predict_step (Some m) acc df amounts i = Inr (ml_step m acc df amounts i)"
  by (simp add: predict_step_def)

lemma predict_step_untrained [simp]:
  "predict_step None acc df amounts i = trend_step amounts i"
  by (simp add: predict_step_def)

lemma year_make_point [simp]: "year (make_point y pv) = y"
  by (cases pv) (simp add: make_point_def)

lemma forecast_loop_Inr:
  assumes "\<And>i. i \<in> set steps \<Longrightarrow> predict_step ml acc df amounts i = Inr (f i)"
  shows "forecast_loop ml acc df amounts ly steps =
           Inr (map (\<lambda>i. make_point (ly + i) (f i)) steps)"
  using assms by (induction steps) simp_all

lemma forecast_loop_Inl:
  assumes "i \<in> set steps" and "predict_step ml acc df amounts i = Inl e"
  shows "forecast_loop ml acc df amounts ly steps = Inl OverflowError"
  using assms
proof (induction steps)
  case Nil
  then show ?case by simp
next
  case (Cons j steps)
  show ?case
  proof (cases "predict_step ml acc df amounts j")
    case (Inl e')
    then show ?thesis by (cases e') simp
  next
    case (Inr pv)
    with Cons have "i \<in> set steps" by auto
    with Cons Inr show ?thesis by simp
  qed
qed

lemma forecast_loop_results:
  assumes "forecast_loop ml acc df amounts ly steps = Inr points"
  shows "list_all2 (\<lambda>i pt. \<exists>pv. predict_step ml acc df amounts i = Inr pv
                              \<and> pt = make_point (ly + i) pv) steps points"
  using assms
  by (induction steps arbitrary: points) (auto split: sum.splits)

lemma map_add_upto: "map (\<lambda>i. m + i) [a..b] = [m + a..m + b]"
proof (induction a b rule: upto.induct)
  case (1 i j)
  show ?case
  proof (cases "i \<le> j")
    case True
    then have "[i..j] = i # [i + 1..j]" and "[m + i..m + j] = (m + i) # [m + i + 1..m + j]"
      by (simp_all add: upto_rec1)
    with 1 True show ?thesis by (simp add: add.assoc)
  next
    case False
    then show ?thesis by simp
  qed
qed

text \<open>What a loop that completes has produced.\<close>

lemma forecast_points_results:
  assumes "forecast_points ml acc df amounts ly n = Inr points"
  shows "length points = nat n"
    and "map year points = [ly + 1..ly + n]"
    and "\<And>j. 1 \<le> j \<Longrightarrow> j \<le> n \<Longrightarrow>
           \<exists>pv. predict_step ml acc df amounts j = Inr pv
              \<and> points ! nat (j - 1) = make_point (ly + j) pv"
proof -
  from assms have "forecast_loop ml acc df amounts ly [1..n] = Inr points"
    by (simp only: forecast_points_def)
  then have all2:
    "list_all2 (\<lambda>i pt. \<exists>pv. predict_step ml acc df amounts i = Inr pv
                          \<and> pt = make_point (ly + i) pv) [1..n] points"
    by (rule forecast_loop_results)
  then have "length [1..n] = length points" by (rule list_all2_lengthD)
  then have len: "length points = length [1..n]" by (rule sym)
  then show "length points = nat n" by simp
  have "map year points = map (\<lambda>i. ly + i) [1..n]"
  proof (rule nth_equalityI)
    show "length (map year points) = length (map (\<lambda>i. ly + i) [1..n])" using len by simp
  next
    fix k assume "k < length (map year points)"
    then have k: "k < length [1..n]" using len by simp
    with all2 obtain pv where "points ! k = make_point (ly + [1..n] ! k) pv"
      by (auto simp add: list_all2_conv_all_nth)
    with k len show "map year points ! k = map (\<lambda>i. ly + i) [1..n] ! k" by simp
  qed
  then show "map year points = [ly + 1..ly + n]" by (simp add: map_add_upto)
  fix j :: int assume j: "1 \<le> j" "j \<le> n"
  then have k: "nat (j - 1) < length [1..n]" and nth: "[1..n] ! nat (j - 1) = j" by simp_all
  have "\<exists>pv. predict_step ml acc df amounts ([1..n] ! nat (j - 1)) = Inr pv
              \<and> points ! nat (j - 1) = make_point (ly + [1..n] ! nat (j - 1)) pv"
    using list_all2_nthD [OF all2 k] .
  then show "\<exists>pv. predict_step ml acc df amounts j = Inr pv
              \<and> points ! nat (j - 1) = make_point (ly + j) pv"
    by (simp only: nth)
qed

text \<open>When the loop completes: always with a fitted model, and without one exactly when
  the last power is in range.\<close>

lemma forecast_points_returns:
  "(\<exists>points. forecast_points ml acc df amounts ly n = Inr points) \<longleftrightarrow>
     ml \<noteq> None \<or> \<bar>growth_factor amounts\<bar> ^ nat n \<le> float_max"
proof (cases ml)
  case (Some m)
  then show ?thesis
    using forecast_loop_Inr [of "[1..n]" ml acc df amounts "\<lambda>i. ml_step m acc df amounts i" ly]
    by (simp add: forecast_points_def)
next
  case None
  show ?thesis
  proof (cases "\<bar>growth_factor amounts\<bar> ^ nat n \<le> float_max")
    case True
    then have "\<forall>i \<in> set [1..n]. \<bar>growth_factor amounts\<bar> ^ nat i \<le> float_max"
      using power_steps_bounded [of n "growth_factor amounts"] by blast
    then have "\<And>i. i \<in> set [1..n] \<Longrightarrow> predict_step ml acc df amounts i =
        Inr (last amounts * growth_factor amounts ^ nat i,
             \<bar>last amounts * growth_factor amounts ^ nat i\<bar> * 0.20)"
      using None by (simp add: trend_step_Inr_iff)
    then have "forecast_loop ml acc df amounts ly [1..n] =
        Inr (map (\<lambda>i. make_point (ly + i)
                   (last amounts * growth_factor amounts ^ nat i,
                    \<bar>last amounts * growth_factor amounts ^ nat i\<bar> * 0.20)) [1..n])"
      by (rule forecast_loop_Inr)
    with True show ?thesis by (simp add: forecast_points_def)
  next
    case False
    then have "\<not> (\<forall>i \<in> set [1..n]. \<bar>growth_factor amounts\<bar> ^ nat i \<le> float_max)"
      using power_steps_bounded [of n "growth_factor amounts"] by blast
    then obtain i where i: "i \<in> set [1..n]" "float_max < \<bar>growth_factor amounts\<bar> ^ nat i"
      by (auto simp add: not_le)
    then have "predict_step ml acc df amounts i = Inl OverflowError"
      using None by (simp add: trend_step_Inl_iff)
    from forecast_loop_Inl [OF i(1) this] False None show ?thesis
      by (simp add: forecast_points_def)
  qed
qed


subsection \<open>Shape of the result\<close>

lemma length_build_features [simp]: "length (build_features amounts) = length amounts"
  by (simp add: build_features_def Let_def)

lemma max_list_Max:
  assumes "xs \<noteq> []"
  shows "max_list xs = Max (set xs)"
proof (cases xs)
  case Nil
  with assms show ?thesis by simp
next
  case (Cons a list)
  then show ?thesis using Max.set_eq_fold [of a list] by simp
qed

text \<open>With two rows or more the endpoint reaches the loop, and returns when the loop
  completes.\<close>

lemma generate_forecast_Rows:
  assumes "2 \<le> length historical_data"
  shows "generate_forecast sk request (Rows historical_data) =
    (let amounts = map amount_of historical_data;
         df = build_features amounts;
         sel = select_model (model request) (length df);
         tr = train sk (fst sel) (snd sel) df amounts;
         last_year = max_list (map fst historical_data)
     in case forecast_points (fst tr) (snd tr) df amounts last_year (years request) of
          Inl e \<Rightarrow> Inl (HTTPException 500 (''Error generating forecast: '' @ str_exception e))
        | Inr points \<Rightarrow>
            Inr \<lparr> fr_country = country request, fr_sector = sector request,
                  predictions = points,
                  accuracy = make_accuracy_metrics (model request) (fst tr \<noteq> None) (snd tr),
                  featureImportance = feature_importance,
                  insights = make_insights request amounts last_year (snd tr) \<rparr>)"
  using assms by (auto simp add: generate_forecast_def Let_def case_prod_beta)

lemma generate_forecast_Inr:
  assumes "2 \<le> length h" and "generate_forecast sk request (Rows h) = Inr fr"
  shows "forecast_points
           (fst (train sk (fst (select_model (model request) (length h)))
                   (snd (select_model (model request) (length h)))
                   (build_features (map amount_of h)) (map amount_of h)))
           (snd (train sk (fst (select_model (model request) (length h)))
                   (snd (select_model (model request) (length h)))
                   (build_features (map amount_of h)) (map amount_of h)))
           (build_features (map amount_of h)) (map amount_of h)
           (Max (set (map fst h))) (years request) = Inr (predictions fr)"
    and "fr_country fr = country request" and "fr_sector fr = sector request"
    and "accuracy fr =
           make_accuracy_metrics (model request)
             (fst (train sk (fst (select_model (model request) (length h)))
                     (snd (select_model (model request) (length h)))
                     (build_features (map amount_of h)) (map amount_of h)) \<noteq> None)
             (snd (train sk (fst (select_model (model request) (length h)))
                     (snd (select_model (model request) (length h)))
                     (build_features (map amount_of h)) (map amount_of h)))"
    and "featureImportance fr = feature_importance"
    and "insights fr =
           make_insights request (map amount_of h) (Max (set (map fst h)))
             (snd (train sk (fst (select_model (model request) (length h)))
                     (snd (select_model (model request) (length h)))
                     (build_features (map amount_of h)) (map amount_of h)))"
proof -
  from assms(1) have ne: "map fst h \<noteq> []" by auto
  note gf = assms(2) [unfolded generate_forecast_Rows [OF assms(1)] Let_def]
  show "forecast_points
           (fst (train sk (fst (select_model (model request) (length h)))
                   (snd (select_model (model request) (length h)))
                   (build_features (map amount_of h)) (map amount_of h)))
           (snd (train sk (fst (select_model (model request) (length h)))
                   (snd (select_model (model request) (length h)))
                   (build_features (map amount_of h)) (map amount_of h)))
           (build_features (map amount_of h)) (map amount_of h)
           (Max (set (map fst h))) (years request) = Inr (predictions fr)"
    using gf by (auto simp add: max_list_Max [OF ne] split: sum.splits)
  show "fr_country fr = country request" using gf by (auto split: sum.splits)
  show "fr_sector fr = sector request" using gf by (auto split: sum.splits)
  show "accuracy fr =
           make_accuracy_metrics (model request)
             (fst (train sk (fst (select_model (model request) (length h)))
                     (snd (select_model (model request) (length h)))
                     (build_features (map amount_of h)) (map amount_of h)) \<noteq> None)
             (snd (train sk (fst (select_model (model request) (length h)))
                     (snd (select_model (model request) (length h)))
                     (build_features (map amount_of h)) (map amount_of h)))"
    using gf by (auto split: sum.splits)
  show "featureImportance fr = feature_importance" using gf by (auto split: sum.splits)
  show "insights fr =
           make_insights request (map amount_of h) (Max (set (map fst h)))
             (snd (train sk (fst (select_model (model request) (length h)))
                     (snd (select_model (model request) (length h)))
                     (build_features (map amount_of h)) (map amount_of h)))"
    using gf by (auto simp add: max_list_Max [OF ne] split: sum.splits)
qed

lemma generate_forecast_completes:
  assumes "2 \<le> length h"
  shows "(\<exists>fr. generate_forecast sk request (Rows h) = Inr fr) \<longleftrightarrow>
           fst (train sk (fst (select_model (model request) (length h)))
                  (snd (select_model (model request) (length h)))
                  (build_features (map amount_of h)) (map amount_of h)) \<noteq> None
           \<or> \<bar>growth_factor (map amount_of h)\<bar> ^ nat (years request) \<le> float_max"
  using forecast_points_returns
    [of "fst (train sk (fst (select_model (model request) (length h)))
                  (snd (select_model (model request) (length h)))
                  (build_features (map amount_of h)) (map amount_of h))"
        "snd (train sk (fst (select_model (model request) (length h)))
                  (snd (select_model (model request) (length h)))
                  (build_features (map amount_of h)) (map amount_of h))"
        "build_features (map amount_of h)" "map amount_of h"
        "max_list (map fst h)" "years request"]
  by (auto simp add: generate_forecast_Rows [OF assms] Let_def split: sum.splits)


subsection \<open>Bounds of a prediction point\<close>



subsection \<open>Training with the stub regressors\<close>

lemma those_map_Some: "those (map (\<lambda>x. Some (f x)) xs) = Some (map f xs)"
  by (induction xs) simp_all

lemma train_sk_constant:
  "train (sk_constant v r2) reg e df amounts =
     (if 3 \<le> length df then (Some (\<lambda>x. Some v), accuracy_from_r2 e r2) else (None, 80))"
  using those_map_Some [of "\<lambda>x. v" "drop 2 df"]
  by (simp add: train_def sk_constant_def Let_def)


subsection \<open>Model selection and the reported accuracy\<close>

lemma spec_clamp_max_min: "lo \<le> hi \<Longrightarrow> spec_clamp v lo hi = max lo (min hi v)"
  by (simp add: spec_clamp_def max_def min_def)

lemma accuracy_from_r2_bounds:
  assumes "75 \<le> e"
  shows "75 \<le> accuracy_from_r2 e r2 \<and> accuracy_from_r2 e r2 \<le> e"
  using assms by (cases r2) (simp_all add: accuracy_from_r2_def)

lemma snd_select_model:
  "snd (select_model m n) =
     (if m = ''prophet'' \<or> n < 5 then 86.5 else spec_expected_ceiling m)"
  by (simp add: select_model_def spec_expected_ceiling_def)

lemma select_model_ceiling:
  "86.5 \<le> snd (select_model m n) \<and> snd (select_model m n) \<le> spec_expected_ceiling m"
  by (simp add: select_model_def spec_expected_ceiling_def)

lemma train_accuracy_bounds:
  assumes "80 \<le> e"
  shows "75 \<le> snd (train sk reg e df amounts) \<and> snd (train sk reg e df amounts) \<le> e"
  using assms accuracy_from_r2_bounds [of e]
  by (auto simp add: train_def Let_def split: option.splits)

lemma train_fitted:
  assumes "3 \<le> length df"
    and "fit sk reg (drop 2 df) (drop 2 amounts) = Some m"
    and "those (map m (drop 2 df)) = Some preds"
    and "r2_score sk (drop 2 amounts) preds = Some r2"
  shows "train sk reg e df amounts = (Some m, accuracy_from_r2 e r2)"
  using assms by (simp add: train_def Let_def)

lemma confidence_make_accuracy_metrics [simp]:
  "confidence (make_accuracy_metrics m u a) = a"
  by (simp add: make_accuracy_metrics_def)

text \<open>
  C4, as stated: the requested identifier alone determines the regressor and its
  expected ceiling.  The first branch of the selection is
  \<^verbatim>\<open>request.model == "prophet" or len(df) < 5\<close>: on a series of four observations the
  identifiers "hybrid" and "xgboost" get the random forest with ceiling 86.5, and the
  same identifier gets another regressor on five observations.
\<close>

theorem model_selection_counterexample:
  "select_model ''hybrid'' 4 = (RandomForestRegressor 100 42, 86.5)
   \<and> select_model ''hybrid'' 4 \<noteq> (GradientBoostingRegressor 150 0.08 (Some 4) 42, 91.8)
   \<and> select_model ''xgboost'' 4 \<noteq> (GradientBoostingRegressor 100 0.1 None 42, 89.2)
   \<and> select_model ''hybrid'' 4 \<noteq> select_model ''hybrid'' 5"
  by (simp add: select_model_def)

text \<open>
  C4, amended.  On a series of at least five observations the identifier determines
  the configuration: "prophet" the random forest of 100 trees with ceiling 86.5,
  "xgboost" the gradient boosting of 100 stages at learning rate 0.1 with ceiling 89.2,
  "hybrid" and every other identifier the gradient boosting of 150 stages, depth 4,
  learning rate 0.08 with ceiling 91.8.  On fewer than five observations every
  identifier gets the random forest of 100 trees with ceiling 86.5.
\<close>

theorem model_selection:
  "(5 \<le> n \<longrightarrow>
       select_model ''prophet'' n = (RandomForestRegressor 100 42, 86.5)
     \<and> select_model ''xgboost'' n = (GradientBoostingRegressor 100 0.1 None 42, 89.2)
     \<and> select_model ''hybrid'' n = (GradientBoostingRegressor 150 0.08 (Some 4) 42, 91.8)
     \<and> (m \<noteq> ''prophet'' \<and> m \<noteq> ''xgboost'' \<longrightarrow>
          select_model m n = (GradientBoostingRegressor 150 0.08 (Some 4) 42, 91.8)))
   \<and> (n < 5 \<longrightarrow> select_model m n = (RandomForestRegressor 100 42, 86.5))"
  by (simp add: select_model_def)

theorem model_selection_witness:
  "(5::nat) \<le> 6
   \<and> select_model ''prophet'' 6 = (RandomForestRegressor 100 42, 86.5)
   \<and> select_model ''xgboost'' 6 = (GradientBoostingRegressor 100 0.1 None 42, 89.2)
   \<and> select_model ''hybrid'' 6 = (GradientBoostingRegressor 150 0.08 (Some 4) 42, 91.8)
   \<and> ''arima'' \<noteq> ''prophet'' \<and> ''arima'' \<noteq> ''xgboost''
   \<and> select_model ''arima'' 6 = (GradientBoostingRegressor 150 0.08 (Some 4) 42, 91.8)
   \<and> (4::nat) < 5
   \<and> select_model ''xgboost'' 4 = (RandomForestRegressor 100 42, 86.5)"
  using model_selection [of 6 "''arima''"] model_selection [of 4 "''xgboost''"]
  by simp

subsection \<open>The forecast endpoint\<close>




text \<open>
  C1.  Every returned point should satisfy \<open>0 \<le> lower \<le> predicted \<le> upper\<close>.  The
  code computes \<^verbatim>\<open>upper\<close> from the prediction before flooring the prediction at zero,
  so a negative raw prediction gives \<open>upper < predicted\<close>.  On the two-point series
  (2020, 1000), (2021, 100) with \<open>years = 1\<close> the growth factor is \<open>1 - 4.5\<close>, the raw
  prediction \<open>-350\<close>, and the point returned for 2022 has \<open>predicted = 0\<close>, \<open>lower = 0\<close>
  and \<open>upper = -280\<close>, whatever the regressor.
\<close>

theorem forecast_upper_below_predicted:
  "\<exists>fr. generate_forecast sk
           \<lparr> country = ''Kenya'', sector = None, years = 1, model = ''hybrid'' \<rparr>
           (Rows [(2020, Some 1000), (2021, Some 100)]) = Inr fr
        \<and> predictions fr = [\<lparr> year = 2022, predicted = 0, lower = 0, upper = - 280 \<rparr>]
        \<and> upper (hd (predictions fr)) < predicted (hd (predictions fr))"
  by (simp add: generate_forecast_Rows Let_def train_def forecast_points_def
      trend_step_def growth_factor_def py_pow_small make_point_def avg_annual_change_def
      amount_of_def py_round_def round_half_even_def)











text \<open>
  C10.  In every returned accuracy dictionary the entry of the requested model and the
  \<open>confidence\<close> entry are the computed \<^verbatim>\<open>model_accuracy\<close>; the two other entries are
  constants that depend on the data only through whether a model was trained:
  86.5 / 89.2 / 91.8 when it was, 82.1 / 84.5 / 88.1 when it was not.  An identifier
  other than "prophet" and "xgboost" is treated as "hybrid".  With a trained model a
  dictionary is returned.
\<close>

theorem accuracy_map_entries:
  assumes "2 \<le> length h"
  shows "let amounts = map amount_of h;
             df = build_features amounts;
             sel = select_model (model request) (length df);
             tr = train sk (fst sel) (snd sel) df amounts;
             model_accuracy = snd tr;
             trained = (fst tr \<noteq> None)
         in (trained \<longrightarrow> (\<exists>fr. generate_forecast sk request (Rows h) = Inr fr))
          \<and> (\<forall>fr. generate_forecast sk request (Rows h) = Inr fr \<longrightarrow>
               (let a = accuracy fr
                in confidence a = model_accuracy
                 \<and> (model request = ''prophet'' \<longrightarrow>
                      prophet a = model_accuracy
                    \<and> xgboost a = (if trained then 89.2 else 84.5)
                    \<and> hybrid a = (if trained then 91.8 else 88.1))
                 \<and> (model request = ''xgboost'' \<longrightarrow>
                      prophet a = (if trained then 86.5 else 82.1)
                    \<and> xgboost a = model_accuracy
                    \<and> hybrid a = (if trained then 91.8 else 88.1))
                 \<and> (model request \<noteq> ''prophet'' \<and> model request \<noteq> ''xgboost'' \<longrightarrow>
                      prophet a = (if trained then 86.5 else 82.1)
                    \<and> xgboost a = (if trained then 89.2 else 84.5)
                    \<and> hybrid a = model_accuracy)))"
proof -
  have ex: "\<exists>fr. generate_forecast sk request (Rows h) = Inr fr"
    if "fst (train sk (fst (select_model (model request) (length h)))
               (snd (select_model (model request) (length h)))
               (build_features (map amount_of h)) (map amount_of h)) \<noteq> None"
    using that generate_forecast_completes [OF assms, of sk request] by blast
  show ?thesis
    unfolding Let_def length_build_features length_map
    using ex generate_forecast_Inr(4) [OF assms]
    by (auto simp add: make_accuracy_metrics_def)
qed

theorem accuracy_map_entries_witness:
  "2 \<le> length [(2019::int, Some (90::real)), (2020, Some 100), (2021, Some 120), (2022, Some 150), (2023, Some 200)]
   \<and> fst (train (sk_constant 190 (Fin 0.8)) (fst (select_model ''xgboost'' 5))
            (snd (select_model ''xgboost'' 5)) (build_features [90, 100, 120, 150, 200])
            [90, 100, 120, 150, 200]) \<noteq> None
   \<and> (\<exists>fr. generate_forecast (sk_constant 190 (Fin 0.8))
              \<lparr> country = ''Kenya'', sector = None, years = 2, model = ''xgboost'' \<rparr>
              (Rows [(2019, Some 90), (2020, Some 100), (2021, Some 120), (2022, Some 150), (2023, Some 200)])
            = Inr fr
          \<and> confidence (accuracy fr) = 80 \<and> xgboost (accuracy fr) = 80
          \<and> prophet (accuracy fr) = 86.5 \<and> hybrid (accuracy fr) = 91.8)"
  using accuracy_map_entries
    [where h = "[(2019, Some 90), (2020, Some 100), (2021, Some 120), (2022, Some 150), (2023, Some 200)]"
       and sk = "sk_constant 190 (Fin 0.8)"
       and request = "\<lparr> country = ''Kenya'', sector = None, years = 2, model = ''xgboost'' \<rparr>"]
  by (auto simp add: Let_def amount_of_def train_sk_constant select_model_def
      accuracy_from_r2_def)

text \<open>
  C5, as stated: after a successful fit the reported accuracy is
  \<open>clamp(r2 * 100, 75.0, ceiling of the requested model)\<close>.  On four equal observations
  the forest fits its two training rows exactly, the score is 1.0, and the request for
  "hybrid" reports 86.5, the ceiling of the forest that was selected, not 91.8.
\<close>

theorem accuracy_clamp_counterexample:
  "map_option (confidence \<circ> accuracy)
     (response_body
        (generate_forecast (sk_constant 100 (Fin 1))
           \<lparr> country = ''Kenya'', sector = None, years = 1, model = ''hybrid'' \<rparr>
           (Rows [(2020, Some 100), (2021, Some 100), (2022, Some 100), (2023, Some 100)])))
     = Some 86.5
   \<and> spec_clamp (1 * 100) 75 (spec_expected_ceiling ''hybrid'') = 91.8"
  by (simp add: generate_forecast_Rows Let_def response_body_def train_sk_constant
      forecast_points_def select_model_def accuracy_from_r2_def spec_clamp_def
      spec_expected_ceiling_def)

text \<open>
  C5, amended.  For a series of at least two rows every reported accuracy lies within
  \<open>[75.0, expected ceiling of the requested model]\<close>, and after a successful fit with a
  finite score \<open>r\<close> a result is returned whose accuracy is \<open>clamp(r * 100, 75.0, c)\<close>, where
  \<open>c\<close> is the ceiling of the selected configuration: 86.5 for "prophet" and for every
  series of fewer than five observations, the ceiling of the requested model otherwise.
\<close>

theorem reported_accuracy_clamped:
  assumes "2 \<le> length h"
  shows "(\<forall>fr. generate_forecast sk request (Rows h) = Inr fr \<longrightarrow>
            75 \<le> confidence (accuracy fr)
          \<and> confidence (accuracy fr) \<le> spec_expected_ceiling (model request))
     \<and> (let amounts = map amount_of h;
             X_train = drop 2 (build_features amounts);
             y_train = drop 2 amounts;
             reg = fst (select_model (model request) (length h));
             ceiling_used = (if model request = ''prophet'' \<or> length h < 5 then 86.5
                             else spec_expected_ceiling (model request))
         in \<forall>m preds r.
              3 \<le> length h \<and> fit sk reg X_train y_train = Some m
              \<and> those (map m X_train) = Some preds
              \<and> r2_score sk y_train preds = Some (Fin r)
              \<longrightarrow> (\<exists>fr. generate_forecast sk request (Rows h) = Inr fr
                     \<and> confidence (accuracy fr) = spec_clamp (r * 100) 75 ceiling_used))"
proof -
  let ?amounts = "map amount_of h"
  let ?df = "build_features ?amounts"
  let ?sel = "select_model (model request) (length h)"
  let ?tr = "train sk (fst ?sel) (snd ?sel) ?df ?amounts"
  have ceil: "86.5 \<le> snd ?sel" "snd ?sel \<le> spec_expected_ceiling (model request)"
    using select_model_ceiling [of "model request" "length h"] by simp_all
  then have e80: "80 \<le> snd ?sel" by simp
  have bounds: "75 \<le> snd ?tr" "snd ?tr \<le> spec_expected_ceiling (model request)"
    using train_accuracy_bounds [OF e80, of sk "fst ?sel" ?df ?amounts] ceil by simp_all
  have conf: "confidence (accuracy fr) = snd ?tr"
    if "generate_forecast sk request (Rows h) = Inr fr" for fr
    using generate_forecast_Inr(4) [OF assms that] by simp
  have fitted: "\<exists>fr. generate_forecast sk request (Rows h) = Inr fr
                  \<and> confidence (accuracy fr) = spec_clamp (r * 100) 75 (snd ?sel)"
    if "3 \<le> length h" "fit sk (fst ?sel) (drop 2 ?df) (drop 2 ?amounts) = Some m"
       "those (map m (drop 2 ?df)) = Some preds"
       "r2_score sk (drop 2 ?amounts) preds = Some (Fin r)" for m preds r
  proof -
    from that have tr: "?tr = (Some m, accuracy_from_r2 (snd ?sel) (Fin r))"
      using train_fitted [of ?df sk "fst ?sel" ?amounts m preds "Fin r" "snd ?sel"] by simp
    then have "fst ?tr \<noteq> None" by simp
    then obtain fr where fr: "generate_forecast sk request (Rows h) = Inr fr"
      using generate_forecast_completes [OF assms, of sk request] by blast
    moreover have "(75::real) \<le> snd ?sel" using ceil by simp
    ultimately show ?thesis
      using conf [OF fr] tr by (auto simp add: accuracy_from_r2_def spec_clamp_max_min)
  qed
  show ?thesis
    unfolding Let_def
    using bounds conf fitted by (simp add: snd_select_model)
qed

theorem reported_accuracy_clamped_witness:
  "2 \<le> length [(2020::int, Some (100::real)), (2021, Some 100), (2022, Some 100), (2023, Some 100)]
   \<and> 3 \<le> length [(2020::int, Some (100::real)), (2021, Some 100), (2022, Some 100), (2023, Some 100)]
   \<and> fit (sk_constant 100 (Fin 1)) (fst (select_model ''hybrid'' 4))
        (drop 2 (build_features [100, 100, 100, 100])) (drop 2 [100, 100, 100, 100])
       = Some (\<lambda>x. Some 100)
   \<and> those (map (\<lambda>x. Some (100::real)) (drop 2 (build_features [100, 100, 100, 100])))
       = Some (map (\<lambda>x. 100) (drop 2 (build_features [100, 100, 100, 100])))
   \<and> r2_score (sk_constant 100 (Fin 1)) (drop 2 [100, 100, 100, 100])
        (map (\<lambda>x. 100) (drop 2 (build_features [100, 100, 100, 100]))) = Some (Fin 1)
   \<and> (\<exists>fr. generate_forecast (sk_constant 100 (Fin 1))
              \<lparr> country = ''Kenya'', sector = None, years = 1, model = ''hybrid'' \<rparr>
              (Rows [(2020, Some 100), (2021, Some 100), (2022, Some 100), (2023, Some 100)])
            = Inr fr
          \<and> 75 \<le> confidence (accuracy fr)
          \<and> confidence (accuracy fr) \<le> spec_expected_ceiling ''hybrid''
          \<and> confidence (accuracy fr) = spec_clamp (1 * 100) 75 86.5)"
  using reported_accuracy_clamped
    [where h = "[(2020, Some 100), (2021, Some 100), (2022, Some 100), (2023, Some 100)]"
       and sk = "sk_constant 100 (Fin 1)"
       and request = "\<lparr> country = ''Kenya'', sector = None, years = 1, model = ''hybrid'' \<rparr>"]
    those_map_Some [of "\<lambda>x. 100::real" "drop 2 (build_features [100, 100, 100, 100])"]
  by (auto simp add: Let_def amount_of_def sk_constant_def)


subsection \<open>The trend fallback\<close>


text \<open>Without a fitted model the accuracy is 75.0 after an attempted fit that raised,
  and the default 80.0 when no fit was attempted.\<close>

lemma train_untrained_accuracy:
  assumes "fst (train sk reg e df amounts) = None"
  shows "snd (train sk reg e df amounts) = (if 3 \<le> length df then 75 else 80)"
  using assms by (auto simp add: train_def Let_def split: option.splits)

lemma method_used_untrained [simp]:
  "method_used (make_accuracy_metrics m False a) = ''Trend Analysis''"
  by (simp add: make_accuracy_metrics_def)







subsection \<open>The trained path: growth correction and failing steps\<close>

lemma last_three:
  assumes "3 \<le> length xs"
  shows "last_n 3 xs = [xs ! (length xs - 3), xs ! (length xs - 2), last xs]"
proof -
  let ?n = "length xs"
  have len: "length (last_n 3 xs) = 3" using assms by (simp add: last_n_def)
  then obtain a b c where abc: "last_n 3 xs = [a, b, c]"
    by (auto simp add: length_Suc_conv numeral_3_eq_3)
  have nth: "last_n 3 xs ! k = xs ! (?n - 3 + k)" if "k < 3" for k
    using assms that by (simp add: last_n_def)
  have k1: "?n - 3 + 1 = ?n - 2" and k2: "?n - 3 + 2 = ?n - 1"
    using assms by arith+
  have "a = xs ! (?n - 3)" using nth [of 0] abc by simp
  moreover have "b = xs ! (?n - 2)" using nth [of 1, unfolded k1] abc by simp
  moreover have "c = xs ! (?n - 1)" using nth [of 2, unfolded k2] abc by simp
  moreover have "xs ! (?n - 1) = last xs"
    using assms by (cases xs) (simp_all add: last_conv_nth)
  ultimately show ?thesis using abc by simp
qed

lemma recent_trend_closed:
  assumes "3 \<le> length amounts"
  shows "recent_trend amounts = (last amounts - amounts ! (length amounts - 3)) / 2"
  using assms by (simp add: recent_trend_def last_three np_diff_def np_mean_def)


text \<open>
  C6, as stated: on the first step, a raw prediction within 1.0 of the last amount is
  replaced by the last amount plus 0.75 times the mean of the last up-to-3 first
  differences.  The code takes the first differences of the last three amounts
  (\<^verbatim>\<open>np.diff(amounts[-3:])\<close>), which are the last two differences.  On 100, 120, 150,
  200 with a raw prediction of 200 it returns \<open>200 + 0.75 * 40 = 230\<close>, where the mean of
  the last three differences gives 225.
\<close>

theorem flat_correction_counterexample:
  "map_option (map predicted \<circ> predictions)
     (response_body
        (generate_forecast (sk_constant 200 (Fin 0.9))
           \<lparr> country = ''Kenya'', sector = None, years = 1, model = ''hybrid'' \<rparr>
           (Rows [(2020, Some 100), (2021, Some 120), (2022, Some 150), (2023, Some 200)])))
     = Some [230]
   \<and> spec_flat_correction [100, 120, 150, 200] = 225"
  by (simp add: generate_forecast_Rows Let_def response_body_def train_sk_constant
      select_model_def accuracy_from_r2_def amount_of_def forecast_points_def
      ml_step_def adjust_prediction_def recent_trend_closed make_point_def py_round_def
      round_half_even_def spec_flat_correction_def np_diff_def np_mean_def last_n_def)

text \<open>
  C6, amended.  On the trained path, for the first step only: a raw prediction within
  1.0 of the last amount is replaced by the last amount plus 0.75 times the mean of the
  first differences of the last three amounts, which is half the difference between the
  last and the third-last amount; otherwise the raw prediction is kept.  Every later
  step \<open>i\<close> keeps the raw prediction and adds \<open>0.5 * i * average_annual_change\<close>.
\<close>

theorem flat_prediction_correction:
  "(3 \<le> length amounts \<and> m (new_features df 1) = Some raw \<longrightarrow>
      (let p = (if \<bar>raw - last amounts\<bar> < 1
                then last amounts + 0.75 * np_mean (np_diff (last_n 3 amounts)) else raw)
       in predict_step (Some m) model_accuracy df amounts 1 =
            Inr (p, \<bar>p\<bar> * ((100 - model_accuracy) / 100 * 0.25 + 0.10)))
    \<and> np_mean (np_diff (last_n 3 amounts))
        = (last amounts - amounts ! (length amounts - 3)) / 2)
   \<and> (1 < i \<and> m (new_features df i) = Some raw \<longrightarrow>
      (let p = raw + 0.5 * real_of_int i * avg_annual_change amounts
       in predict_step (Some m) model_accuracy df amounts i =
            Inr (p, \<bar>p\<bar> * ((100 - model_accuracy) / 100 * 0.25 + 0.10))))"
proof -
  have "np_mean (np_diff (last_n 3 amounts))
        = (last amounts - amounts ! (length amounts - 3)) / 2" if "3 \<le> length amounts"
    using that by (simp add: last_three np_diff_def np_mean_def)
  then show ?thesis
    by (simp add: ml_step_def adjust_prediction_def recent_trend_def Let_def mult.commute)
qed

theorem flat_prediction_correction_witness:
  "3 \<le> length [100, 120, 150, 200::real]
   \<and> (\<lambda>x. Some 200) (new_features (build_features [100, 120, 150, 200]) 1) = Some (200::real)
   \<and> predict_step (Some (\<lambda>x. Some 200)) 86.5 (build_features [100, 120, 150, 200])
        [100, 120, 150, 200] 1 = Inr (230, 230 * 0.13375)
   \<and> (1::int) < 2
   \<and> (\<lambda>x. Some 200) (new_features (build_features [100, 120, 150, 200]) 2) = Some (200::real)
   \<and> predict_step (Some (\<lambda>x. Some 200)) 86.5 (build_features [100, 120, 150, 200])
        [100, 120, 150, 200] 2 = Inr (200 + 100 / 3, (200 + 100 / 3) * 0.13375)"
  using flat_prediction_correction
    [where amounts = "[100, 120, 150, 200]" and m = "\<lambda>x. Some 200"
       and df = "build_features [100, 120, 150, 200]" and raw = 200
       and model_accuracy = "86.5" and i = 2]
  by (simp add: avg_annual_change_def Let_def)


lemma year_idx_build_features:
  "i < length amounts \<Longrightarrow> year_idx (build_features amounts ! i) = Fin (real i)"
  by (simp add: build_features_def Let_def)

lemma year_idx_in_build_features:
  assumes "x \<in> set (build_features amounts)"
  shows "\<exists>i < length amounts. year_idx x = Fin (real i)"
proof -
  from assms obtain i where "i < length (build_features amounts)" "x = build_features amounts ! i"
    by (auto simp add: in_set_conv_nth)
  then show ?thesis using year_idx_build_features [of i amounts] by auto
qed

lemma those_raises_at:
  assumes "real (length amounts) \<le> k"
  shows "those (map (\<lambda>x. if year_idx x = Fin k then None else Some v)
                 (drop 2 (build_features amounts)))
         = Some (map (\<lambda>x. v) (drop 2 (build_features amounts)))"
proof -
  have "(if year_idx x = Fin k then None else Some v) = Some v"
    if "x \<in> set (drop 2 (build_features amounts))" for x
  proof -
    from that have "x \<in> set (build_features amounts)" by (rule in_set_dropD)
    then obtain i where "i < length amounts" "year_idx x = Fin (real i)"
      using year_idx_in_build_features by blast
    with assms show ?thesis by auto
  qed
  then have eq: "map (\<lambda>x. if year_idx x = Fin k then None else Some v)
                 (drop 2 (build_features amounts))
             = map (\<lambda>x. Some v) (drop 2 (build_features amounts))"
    by simp
  show ?thesis unfolding eq by (rule those_map_Some)
qed

lemma train_sk_raises_at:
  assumes "3 \<le> length amounts" and "real (length amounts) \<le> k"
  shows "train (sk_raises_at k v r2) reg e (build_features amounts) amounts =
           (Some (\<lambda>x. if year_idx x = Fin k then None else Some v), accuracy_from_r2 e r2)"
  using assms those_raises_at [OF assms(2), of v]
  by (simp add: train_def sk_raises_at_def Let_def)

lemma year_idx_new_features [simp]:
  "year_idx (new_features df i) = Fin (real_of_int (int (length df) + i - 1))"
  by (simp add: new_features_def Let_def)


text \<open>
  C7, as stated: a step whose \<^verbatim>\<open>predict\<close> call raises degrades to the fallback formula
  of section 4.4.  That formula is the geometric one; the \<^verbatim>\<open>except\<close> branch computes
  \<open>base_amount + avg_annual_change * i\<close>.  On 100, 120, 150, 200 with a failing first step
  the point returned for 2024 is 233.33, where the geometric formula gives 216.67; the
  second step is still produced.
\<close>

theorem step_failure_counterexample:
  "map_option (map predicted \<circ> predictions)
     (response_body
        (generate_forecast (sk_raises_at 4 190 (Fin 0.9))
           \<lparr> country = ''Kenya'', sector = None, years = 2, model = ''hybrid'' \<rparr>
           (Rows [(2020, Some 100), (2021, Some 120), (2022, Some 150), (2023, Some 200)])))
     = Some [233.33, 223.33]
   \<and> py_round (max 0 (spec_geometric_trend [100, 120, 150, 200] 1)) 2 = 216.67"
  using train_sk_raises_at [of "[100, 120, 150, 200]" 4 190 "Fin 0.9"] upto_rec1 [of 1 2]
  by (simp add: generate_forecast_Rows Let_def response_body_def
      select_model_def accuracy_from_r2_def amount_of_def forecast_points_def
      ml_step_def adjust_prediction_def avg_annual_change_def make_point_def py_round_def
      round_half_even_def spec_geometric_trend_def)

text \<open>
  C7, amended.  With a trained model the request returns all \<open>years\<close> points.  If the
  prediction call raises at step \<open>i\<close>, that step is
  \<open>predicted = last_amount + average_annual_change * i\<close> (a linear trend, not the geometric
  formula of section 4.4) with half-width \<open>0.20 * |predicted|\<close>, floored and rounded like
  every point; and every step is computed from its own prediction call only.
\<close>

theorem step_failure_degrades_one_step:
  assumes "2 \<le> length h" and "1 \<le> i" and "i \<le> years request"
  shows "let amounts = map amount_of h;
             df = build_features amounts;
             sel = select_model (model request) (length df);
             tr = train sk (fst sel) (snd sel) df amounts;
             last_year = Max (set (map fst h));
             p = last amounts + avg_annual_change amounts * real_of_int i
         in \<forall>m. fst tr = Some m \<longrightarrow>
              (\<exists>fr. generate_forecast sk request (Rows h) = Inr fr
                 \<and> length (predictions fr) = nat (years request)
                 \<and> (m (new_features df i) = None \<longrightarrow>
                      predictions fr ! nat (i - 1) =
                        \<lparr> year = last_year + i,
                          predicted = py_round (max 0 p) 2,
                          lower = py_round (max 0 (p - \<bar>p\<bar> * 0.20)) 2,
                          upper = py_round (p + \<bar>p\<bar> * 0.20) 2 \<rparr>)
                 \<and> (\<forall>j. 1 \<le> j \<and> j \<le> years request \<longrightarrow>
                      predictions fr ! nat (j - 1) =
                        make_point (last_year + j) (ml_step m (snd tr) df amounts j)))"
proof -
  let ?amounts = "map amount_of h"
  let ?df = "build_features ?amounts"
  let ?tr = "train sk (fst (select_model (model request) (length h)))
               (snd (select_model (model request) (length h))) ?df ?amounts"
  let ?ly = "Max (set (map fst h))"
  let ?p = "last ?amounts + avg_annual_change ?amounts * real_of_int i"
  have main: "\<exists>fr. generate_forecast sk request (Rows h) = Inr fr
                 \<and> length (predictions fr) = nat (years request)
                 \<and> (m (new_features ?df i) = None \<longrightarrow>
                      predictions fr ! nat (i - 1) =
                        \<lparr> year = ?ly + i,
                          predicted = py_round (max 0 ?p) 2,
                          lower = py_round (max 0 (?p - \<bar>?p\<bar> * 0.20)) 2,
                          upper = py_round (?p + \<bar>?p\<bar> * 0.20) 2 \<rparr>)
                 \<and> (\<forall>j. 1 \<le> j \<and> j \<le> years request \<longrightarrow>
                      predictions fr ! nat (j - 1) =
                        make_point (?ly + j) (ml_step m (snd ?tr) ?df ?amounts j))"
    if m: "fst ?tr = Some m" for m
  proof -
    from m have "fst ?tr \<noteq> None" by simp
    then obtain fr where fr: "generate_forecast sk request (Rows h) = Inr fr"
      using generate_forecast_completes [OF assms(1), of sk request] by blast
    note pts = generate_forecast_Inr(1) [OF assms(1) fr]
    note res = forecast_points_results [OF pts]
    have step: "predictions fr ! nat (j - 1) =
                  make_point (?ly + j) (ml_step m (snd ?tr) ?df ?amounts j)"
      if "1 \<le> j" "j \<le> years request" for j
      using res(3) [OF that] m by auto
    have raised: "predictions fr ! nat (i - 1) =
         \<lparr> year = ?ly + i,
           predicted = py_round (max 0 ?p) 2,
           lower = py_round (max 0 (?p - \<bar>?p\<bar> * 0.20)) 2,
           upper = py_round (?p + \<bar>?p\<bar> * 0.20) 2 \<rparr>"
      if "m (new_features ?df i) = None"
      using that step [OF assms(2,3)] by (simp add: ml_step_def make_point_def Let_def)
    have s': "\<forall>j. 1 \<le> j \<and> j \<le> years request \<longrightarrow>
                      predictions fr ! nat (j - 1) =
                        make_point (?ly + j) (ml_step m (snd ?tr) ?df ?amounts j)"
      using step by blast
    have r': "m (new_features ?df i) = None \<longrightarrow>
                      predictions fr ! nat (i - 1) =
                        \<lparr> year = ?ly + i,
                          predicted = py_round (max 0 ?p) 2,
                          lower = py_round (max 0 (?p - \<bar>?p\<bar> * 0.20)) 2,
                          upper = py_round (?p + \<bar>?p\<bar> * 0.20) 2 \<rparr>"
      using raised by blast
    show ?thesis
      by (rule exI [of _ fr]) (intro conjI fr res(1) r' s')
  qed
  show ?thesis
    unfolding Let_def length_build_features length_map
    using main by blast
qed

theorem step_failure_degrades_one_step_witness:
  "2 \<le> length [(2020::int, Some (100::real)), (2021, Some 120), (2022, Some 150), (2023, Some 200)]
   \<and> (1::int) \<le> 1 \<and> (1::int) \<le> 2
   \<and> fst (train (sk_raises_at 4 190 (Fin 0.9)) (fst (select_model ''hybrid'' 4))
             (snd (select_model ''hybrid'' 4)) (build_features [100, 120, 150, 200])
             [100, 120, 150, 200])
       = Some (\<lambda>x. if year_idx x = Fin 4 then None else Some 190)
   \<and> (\<lambda>x. if year_idx x = Fin 4 then None else Some (190::real))
        (new_features (build_features [100, 120, 150, 200]) 1) = None
   \<and> (\<exists>fr. generate_forecast (sk_raises_at 4 190 (Fin 0.9))
              \<lparr> country = ''Kenya'', sector = None, years = 2, model = ''hybrid'' \<rparr>
              (Rows [(2020, Some 100), (2021, Some 120), (2022, Some 150), (2023, Some 200)])
            = Inr fr
          \<and> length (predictions fr) = 2
          \<and> predictions fr ! 0 =
              \<lparr> year = 2024, predicted = 233.33, lower = 186.67, upper = 280 \<rparr>)"
  using step_failure_degrades_one_step
    [where h = "[(2020, Some 100), (2021, Some 120), (2022, Some 150), (2023, Some 200)]"
       and i = 1
       and request = "\<lparr> country = ''Kenya'', sector = None, years = 2, model = ''hybrid'' \<rparr>"
       and sk = "sk_raises_at 4 190 (Fin 0.9)"]
    train_sk_raises_at [of "[100, 120, 150, 200]" 4 190 "Fin 0.9"]
  by (simp add: Let_def amount_of_def avg_annual_change_def py_round_def round_half_even_def)
    blast


subsection \<open>The explanation endpoint\<close>

lemma forecast_request_copy [simp]:
  "\<lparr> country = country request, sector = sector request,
     years = years request, model = model request \<rparr> = (request :: ForecastRequest)"
  by simp

lemma explanation_buckets:
  "select_explanations 3 = short_term_explanations"
  "select_explanations 4 = medium_term_explanations"
  "select_explanations 5 = medium_term_explanations"
  "select_explanations 6 = long_term_explanations"
  "select_explanations 11 = long_term_explanations"
  "feature (hd short_term_explanations) = ''Historical Trend''"
  "feature (hd medium_term_explanations) = ''Development Stage''"
  "feature (hd long_term_explanations) = ''Development Stage''"
  by (simp_all add: select_explanations_def short_term_explanations_def
      medium_term_explanations_def long_term_explanations_def)

text \<open>A returned forecast has one point per requested year.\<close>

lemma generate_forecast_Inr_length:
  assumes "generate_forecast sk request db = Inr fr"
  shows "length (predictions fr) = nat (years request)"
proof (cases db)
  case (DbError msg)
  with assms show ?thesis by (simp add: generate_forecast_def)
next
  case (Rows h)
  show ?thesis
  proof (cases "2 \<le> length h")
    case True
    from generate_forecast_Inr(1) [OF True assms [unfolded Rows]]
    show ?thesis by (rule forecast_points_results(1))
  next
    case False
    with assms Rows show ?thesis
      by (auto simp add: generate_forecast_def Let_def split: if_splits)
  qed
qed

text \<open>The four-point series with a fitted model is forecast.\<close>

lemma four_points_forecast:
  "\<exists>fr. generate_forecast (sk_constant 190 (Fin 0.9))
          \<lparr> country = c, sector = s, years = n, model = ''hybrid'' \<rparr>
          (Rows [(2020, Some 100), (2021, Some 120), (2022, Some 150), (2023, Some 200)])
        = Inr fr"
proof -
  let ?rows = "[(2020::int, Some (100::real)), (2021, Some 120), (2022, Some 150), (2023, Some 200)]"
  have len: "2 \<le> length ?rows" by simp
  show ?thesis
    using generate_forecast_completes [OF len, of "sk_constant 190 (Fin 0.9)"
        "\<lparr> country = c, sector = s, years = n, model = ''hybrid'' \<rparr>"]
    by (simp add: train_sk_constant)
qed

text \<open>
  C9, as stated: on the success path \<open>base_value\<close> is the mean of the historical amounts.
  The endpoint loads its amounts with a query of its own, whose sector test
  \<^verbatim>\<open>request.sector != 'all'\<close> is case-sensitive where the forecast lower-cases first, and
  whose failure is swallowed.  With the sector "All" the own query can match no row, or
  it can fail, while the nested forecast succeeds on the unfiltered series: then
  \<open>base_value\<close> is the literal 25000, not the mean 142.5 of the forecast series.
\<close>

theorem shap_base_value_counterexample:
  "response_body
     (generate_forecast (sk_constant 190 (Fin 0.9))
        \<lparr> country = ''Kenya'', sector = Some ''All'', years = 3, model = ''hybrid'' \<rparr>
        (Rows [(2020, Some 100), (2021, Some 120), (2022, Some 150), (2023, Some 200)]))
     \<noteq> None
   \<and> map_option base_value
       (response_body
          (generate_shap_explanations (sk_constant 190 (Fin 0.9))
             \<lparr> country = ''Kenya'', sector = Some ''All'', years = 3, model = ''hybrid'' \<rparr>
             (Rows [])
             (Rows [(2020, Some 100), (2021, Some 120), (2022, Some 150), (2023, Some 200)])))
     = Some 25000
   \<and> map_option base_value
       (response_body
          (generate_shap_explanations (sk_constant 190 (Fin 0.9))
             \<lparr> country = ''Kenya'', sector = Some ''All'', years = 3, model = ''hybrid'' \<rparr>
             (DbError ''connection lost'')
             (Rows [(2020, Some 100), (2021, Some 120), (2022, Some 150), (2023, Some 200)])))
     = Some 25000
   \<and> np_mean [100, 120, 150, 200] = 142.5"
proof -
  obtain fr where fr: "generate_forecast (sk_constant 190 (Fin 0.9))
        \<lparr> country = ''Kenya'', sector = Some ''All'', years = 3, model = ''hybrid'' \<rparr>
        (Rows [(2020, Some 100), (2021, Some 120), (2022, Some 150), (2023, Some 200)]) = Inr fr"
    using four_points_forecast by blast
  then show ?thesis
    by (simp add: response_body_def generate_shap_explanations_def shap_values_def
        shap_history_def Let_def np_mean_def)
qed

text \<open>
  C9, amended.  Whenever the nested forecast returns a result, the endpoint returns one
  too: its explanation list is the short-term list for \<open>years \<le> 3\<close>, the medium-term list
  for \<open>4 \<le> years \<le> 5\<close> and the long-term list for \<open>years > 5\<close>, whatever the data;
  \<open>model_prediction\<close> is the \<open>predicted\<close> value of the last point of that forecast (for a
  horizon of at least one year; 25000 when the forecast has no point); and \<open>base_value\<close>
  is the mean of the amounts that the endpoint's own query loaded, or 25000 when that
  load is empty.
\<close>

theorem shap_success_path:
  assumes "generate_forecast sk request forecast_db = Inr fr"
  shows "\<exists>res. generate_shap_explanations sk request shap_db forecast_db = Inr res
     \<and> explanations res =
         (if years request \<le> 3 then short_term_explanations
          else if years request \<le> 5 then medium_term_explanations
          else long_term_explanations)
     \<and> model_prediction res =
         (if predictions fr \<noteq> [] then predicted (last (predictions fr)) else 25000)
     \<and> (1 \<le> years request \<longrightarrow> model_prediction res = predicted (last (predictions fr)))
     \<and> base_value res =
         (if shap_history shap_db \<noteq> [] then np_mean (map snd (shap_history shap_db))
          else 25000)
     \<and> shap_country res = country request \<and> shap_sector res = sector request"
proof -
  have "predictions fr \<noteq> []" if "1 \<le> years request"
    using generate_forecast_Inr_length [OF assms] that by auto
  then show ?thesis
    using assms
    by (simp add: generate_shap_explanations_def shap_values_def Let_def
        select_explanations_def np_mean_def)
qed

theorem shap_success_path_witness:
  "\<exists>fr. generate_forecast (sk_constant 190 (Fin 0.9))
           \<lparr> country = ''Kenya'', sector = None, years = 4, model = ''hybrid'' \<rparr>
           (Rows [(2020, Some 100), (2021, Some 120), (2022, Some 150), (2023, Some 200)])
         = Inr fr
       \<and> (\<exists>res. generate_shap_explanations (sk_constant 190 (Fin 0.9))
               \<lparr> country = ''Kenya'', sector = None, years = 4, model = ''hybrid'' \<rparr>
               (Rows [(2020, Some 100), (2021, Some 120), (2022, Some 150), (2023, Some 200)])
               (Rows [(2020, Some 100), (2021, Some 120), (2022, Some 150), (2023, Some 200)])
             = Inr res
           \<and> explanations res = medium_term_explanations
           \<and> model_prediction res = predicted (last (predictions fr))
           \<and> base_value res = 142.5)
       \<and> (\<exists>res. generate_shap_explanations (sk_constant 190 (Fin 0.9))
               \<lparr> country = ''Kenya'', sector = None, years = 4, model = ''hybrid'' \<rparr>
               (Rows [])
               (Rows [(2020, Some 100), (2021, Some 120), (2022, Some 150), (2023, Some 200)])
             = Inr res
           \<and> model_prediction res = predicted (last (predictions fr))
           \<and> base_value res = 25000)"
proof -
  obtain fr where fr: "generate_forecast (sk_constant 190 (Fin 0.9))
           \<lparr> country = ''Kenya'', sector = None, years = 4, model = ''hybrid'' \<rparr>
           (Rows [(2020, Some 100), (2021, Some 120), (2022, Some 150), (2023, Some 200)])
         = Inr fr"
    using four_points_forecast by blast
  have a: "\<exists>res. generate_shap_explanations (sk_constant 190 (Fin 0.9))
               \<lparr> country = ''Kenya'', sector = None, years = 4, model = ''hybrid'' \<rparr>
               (Rows [(2020, Some 100), (2021, Some 120), (2022, Some 150), (2023, Some 200)])
               (Rows [(2020, Some 100), (2021, Some 120), (2022, Some 150), (2023, Some 200)])
             = Inr res
           \<and> explanations res = medium_term_explanations
           \<and> model_prediction res = predicted (last (predictions fr))
           \<and> base_value res = 142.5"
    using shap_success_path [OF fr, of
        "Rows [(2020, Some 100), (2021, Some 120), (2022, Some 150), (2023, Some 200)]"]
    by (auto simp add: shap_history_def np_mean_def)
  have b: "\<exists>res. generate_shap_explanations (sk_constant 190 (Fin 0.9))
               \<lparr> country = ''Kenya'', sector = None, years = 4, model = ''hybrid'' \<rparr>
               (Rows [])
               (Rows [(2020, Some 100), (2021, Some 120), (2022, Some 150), (2023, Some 200)])
             = Inr res
           \<and> model_prediction res = predicted (last (predictions fr))
           \<and> base_value res = 25000"
    using shap_success_path [OF fr, of "Rows []"]
    by (auto simp add: shap_history_def)
  from fr a b show ?thesis by blast
qed


end
